theory Spec2Isabelle
  imports Complex_Main
begin

section \<open>Station tiles to map markers: a model of \<open>pbf2html_station_users.py\<close>\<close>

text \<open>
  The script decodes vector tiles, keeps the features that carry a station name, turns the
  first coordinate of each into longitude and latitude, gathers the records of a whole
  directory and draws one circle marker per record.

  Conventions of the model.
  \<^item> Python's floats are read as real numbers: rounding and overflow are left out.
  \<^item> Python's unbounded integers are \<open>int\<close>.
  \<^item> A raised exception is a value \<open>Inl e\<close> of type \<open>error + 'a\<close>.
  \<^item> What the script prints is a list of messages, oldest first, returned next to the result.
  \<^item> The file system, the tile decoder of \<open>mapbox_vector_tile\<close> and \<open>os.listdir\<close>
    are parameters: a map from paths to contents, a function from contents to a decoded
    tile or an error, and a function from a directory to its entries or an error.
\<close>

subsection \<open>Data\<close>

datatype error =
    OSError | DecodeError | IndexError | ValueError | TypeError | ZeroDivisionError | KeyError

text \<open>A property value of a decoded feature: a string, an integer, a float or a Boolean.\<close>

datatype pval = PStr string | PInt int | PFloat real | PBool bool

text \<open>The \<open>coordinates\<close> entry of a geometry: a number, or a list nested to any depth.\<close>

datatype cval = CNum real | CList "cval list"

record geometry =
  gtype :: string
  coordinates :: cval

text \<open>
  A decoded feature. The script reads \<open>properties\<close> with a default (\<open>None\<close> is the
  missing key) and \<open>geometry\<close> without one; the decoder writes both keys for every feature.
\<close>

record feature =
  properties :: "(string \<rightharpoonup> pval) option"
  geometry :: geometry

record layer =
  extent :: int
  features :: "feature list"

text \<open>A decoded tile is a dictionary from layer names to layers, in insertion order.\<close>

type_synonym tile = "(string \<times> layer) list"

text \<open>
  One extracted station: the dictionary
  \<open>{'geometry': Point(lon, lat), 'properties': {'name': ..., 'passengers': ...}}\<close>.
\<close>

record station =
  name :: pval
  passengers :: pval
  lon :: real
  lat :: real

datatype msg =
    WarnEmpty string
  | WarnGeometry string
  | Extracted string nat
  | Failed string error
  | FileCount nat
  | WarnNoData

subsection \<open>\<open>tile_to_latlon\<close>\<close>

definition tile_to_latlon :: "real \<Rightarrow> real \<Rightarrow> int \<Rightarrow> real \<times> real" where
  "tile_to_latlon x y z =
     (let n = 2 powr (of_int z);
          lon_deg = x / n * 360 - 180;
          lat_rad = arctan (sinh (pi * (1 - 2 * y / n)));
          lat_deg = lat_rad * (180 / pi)
      in (lon_deg, lat_deg))"

subsection \<open>Strings: \<open>os.path.basename\<close>, \<open>str.split\<close>, \<open>int\<close>, \<open>str.endswith\<close>, \<open>os.path.join\<close>\<close>

definition basename :: "string \<Rightarrow> string" where
  "basename p = rev (takeWhile (\<lambda>c. c \<noteq> CHR ''/'') (rev p))"

text \<open>\<open>s.split(c)\<close>: the pieces between the occurrences of \<open>c\<close>; never the empty list.\<close>

fun split_on :: "char \<Rightarrow> string \<Rightarrow> string list" where
  "split_on c [] = [[]]"
| "split_on c (a # s) =
     (if a = c then [] # split_on c s
      else (a # hd (split_on c s)) # tl (split_on c s))"

text \<open>
  \<open>int(s)\<close> on a string, for ASCII text: surrounding white space is dropped, one sign is
  allowed, and at least one decimal digit must follow with nothing else. Underscores between
  digits, which \<open>int\<close> also accepts, cannot reach it here: every argument is a piece of a
  name split at \<open>_\<close>.
\<close>

definition is_space :: "char \<Rightarrow> bool" where
  "is_space c = (of_char c \<in> {9, 10, 11, 12, 13, 28, 29, 30, 31, 32 :: nat})"

definition is_digit :: "char \<Rightarrow> bool" where
  "is_digit c = (48 \<le> (of_char c :: nat) \<and> (of_char c :: nat) \<le> 57)"

definition strip :: "string \<Rightarrow> string" where
  "strip s = rev (dropWhile is_space (rev (dropWhile is_space s)))"

definition digits_value :: "string \<Rightarrow> int" where
  "digits_value ds = foldl (\<lambda>acc c. 10 * acc + (of_char c - 48)) 0 ds"

definition unsigned_int :: "string \<Rightarrow> int option" where
  "unsigned_int ds = (if ds \<noteq> [] \<and> list_all is_digit ds then Some (digits_value ds) else None)"

definition py_int :: "string \<Rightarrow> int option" where
  "py_int s =
     (case strip s of
        [] \<Rightarrow> None
      | c # ds \<Rightarrow>
          if c = CHR ''-'' then map_option uminus (unsigned_int ds)
          else if c = CHR ''+'' then unsigned_int ds
          else unsigned_int (c # ds))"

definition ends_with :: "string \<Rightarrow> string \<Rightarrow> bool" where
  "ends_with s suffix =
     (length suffix \<le> length s \<and> drop (length s - length suffix) s = suffix)"

definition path_join :: "string \<Rightarrow> string \<Rightarrow> string" where
  "path_join a b =
     (if b \<noteq> [] \<and> hd b = CHR ''/'' then b
      else if a = [] \<or> last a = CHR ''/'' then a @ b
      else a @ ''/'' @ b)"

subsection \<open>\<open>read_pbf\<close>\<close>

text \<open>
  Lines 31 to 33: the tile address. \<open>parts[-2]\<close> raises IndexError on a name without
  \<open>_\<close>, \<open>int\<close> raises ValueError on a piece that is not a number, and the zoom is the
  literal 15.
\<close>

definition tile_address :: "string \<Rightarrow> error + (int \<times> int \<times> int)" where
  "tile_address file_path =
     (let file_name = basename file_path;
          parts = split_on CHR ''_'' file_name
      in if length parts < 2 then Inl IndexError
         else
           (case py_int (parts ! (length parts - 2)) of
              None \<Rightarrow> Inl ValueError
            | Some x \<Rightarrow>
                (case py_int (hd (split_on CHR ''.'' (last parts))) of
                   None \<Rightarrow> Inl ValueError
                 | Some y \<Rightarrow> Inr (15, x, y))))"

text \<open>\<open>c[i]\<close> on a coordinate value: a number cannot be indexed.\<close>

definition item :: "cval \<Rightarrow> nat \<Rightarrow> error + cval" where
  "item c i =
     (case c of
        CNum _ \<Rightarrow> Inl TypeError
      | CList cs \<Rightarrow> if i < length cs then Inr (cs ! i) else Inl IndexError)"

text \<open>\<open>c / extent\<close>: a list cannot be divided, and a zero extent raises.\<close>

definition truediv :: "cval \<Rightarrow> int \<Rightarrow> error + real" where
  "truediv c e =
     (case c of
        CList _ \<Rightarrow> Inl TypeError
      | CNum a \<Rightarrow> if e = 0 then Inl ZeroDivisionError else Inr (a / of_int e))"

text \<open>
  Lines 43 to 52: the coordinate that stands for the whole geometry, in the order of the
  source's tests. \<open>Inr None\<close> is the branch that warns and goes on to the next feature.
\<close>

definition first_coords :: "geometry \<Rightarrow> error + cval option" where
  "first_coords geom =
     (if gtype geom = ''LineString'' then map_sum id Some (item (coordinates geom) 0)
      else if gtype geom = ''Polygon'' then
        (case item (coordinates geom) 0 of
           Inl e \<Rightarrow> Inl e
         | Inr ring \<Rightarrow> map_sum id Some (item ring 0))
      else if gtype geom = ''Point'' then Inr (Some (coordinates geom))
      else Inr None)"

text \<open>
  Line 54: \<open>tile_to_latlon(x + coords[0]/extent, y + coords[1]/extent, z)\<close>, its
  arguments evaluated from left to right.
\<close>

definition feature_lonlat :: "int \<Rightarrow> int \<Rightarrow> int \<Rightarrow> int \<Rightarrow> cval \<Rightarrow> error + (real \<times> real)" where
  "feature_lonlat x y z ext coords =
     (case item coords 0 of
        Inl e \<Rightarrow> Inl e
      | Inr c0 \<Rightarrow>
          (case truediv c0 ext of
             Inl e \<Rightarrow> Inl e
           | Inr fx \<Rightarrow>
               (case item coords 1 of
                  Inl e \<Rightarrow> Inl e
                | Inr c1 \<Rightarrow>
                    (case truediv c1 ext of
                       Inl e \<Rightarrow> Inl e
                     | Inr fy \<Rightarrow> Inr (tile_to_latlon (of_int x + fx) (of_int y + fy) z)))))"

definition name_key :: string where
  "name_key = ''S12_001_ja''"

definition passengers_key :: string where
  "passengers_key = ''S12_009''"

text \<open>\<open>feature.get('properties', {})\<close>.\<close>

definition props :: "feature \<Rightarrow> (string \<rightharpoonup> pval)" where
  "props f = (case properties f of None \<Rightarrow> Map.empty | Some p \<Rightarrow> p)"

text \<open>\<open>properties.get('S12_009', 0)\<close>.\<close>

definition passengers_of :: "feature \<Rightarrow> pval" where
  "passengers_of f = (case props f passengers_key of None \<Rightarrow> PInt 0 | Some v \<Rightarrow> v)"

text \<open>
  Lines 35 to 61: the loop over the features of the layer. The last argument is the list
  \<open>features\<close> built so far; an exception ends the loop and keeps what was printed.
\<close>

fun extract_loop ::
  "int \<Rightarrow> int \<Rightarrow> int \<Rightarrow> int \<Rightarrow> feature list \<Rightarrow> station list \<Rightarrow> msg list \<times> (error + station list)"
where
  "extract_loop ext x y z [] acc = ([], Inr acc)"
| "extract_loop ext x y z (f # fs) acc =
     (case props f name_key of
        None \<Rightarrow> extract_loop ext x y z fs acc
      | Some nm \<Rightarrow>
          (case first_coords (geometry f) of
             Inl e \<Rightarrow> ([], Inl e)
           | Inr None \<Rightarrow>
               (case extract_loop ext x y z fs acc of
                  (out, r) \<Rightarrow> (WarnGeometry (gtype (geometry f)) # out, r))
           | Inr (Some coords) \<Rightarrow>
               (case feature_lonlat x y z ext coords of
                  Inl e \<Rightarrow> ([], Inl e)
                | Inr (lo, la) \<Rightarrow>
                    extract_loop ext x y z fs
                      (acc @ [\<lparr>name = nm, passengers = passengers_of f, lon = lo, lat = la\<rparr>]))))"

text \<open>
  The body of the \<open>try\<close>: \<open>Inl e\<close> when it raises, \<open>Inr None\<close> for the empty tile,
  \<open>Inr (Some features)\<close> otherwise.
\<close>

definition read_pbf_body ::
  "(string \<rightharpoonup> 'b) \<Rightarrow> ('b \<Rightarrow> error + tile) \<Rightarrow> string \<Rightarrow> msg list \<times> (error + station list option)"
where
  "read_pbf_body fs decode file_path =
     (case fs file_path of
        None \<Rightarrow> ([], Inl OSError)
      | Some data \<Rightarrow>
          (case decode data of
             Inl e \<Rightarrow> ([], Inl e)
           | Inr tile \<Rightarrow>
               if tile = [] then ([WarnEmpty file_path], Inr None)
               else
                 (let layer = snd (hd tile) in
                  case tile_address file_path of
                    Inl e \<Rightarrow> ([], Inl e)
                  | Inr (z, x, y) \<Rightarrow>
                      (case extract_loop (extent layer) x y z (features layer) [] of
                         (out, Inl e) \<Rightarrow> (out, Inl e)
                       | (out, Inr fts) \<Rightarrow>
                           (out @ [Extracted file_path (length fts)], Inr (Some fts))))))"

text \<open>The \<open>except Exception\<close> clause: print the error and return \<open>None\<close>.\<close>

definition read_pbf ::
  "(string \<rightharpoonup> 'b) \<Rightarrow> ('b \<Rightarrow> error + tile) \<Rightarrow> string \<Rightarrow> msg list \<times> station list option"
where
  "read_pbf fs decode file_path =
     (case read_pbf_body fs decode file_path of
        (out, Inl e) \<Rightarrow> (out @ [Failed file_path e], None)
      | (out, Inr r) \<Rightarrow> (out, r))"

subsection \<open>\<open>load_all_pbf_files\<close>\<close>

text \<open>
  Lines 72 to 78: the loop over the directory entries, with the accumulators
  \<open>all_data\<close> and \<open>file_count\<close>. \<open>if features:\<close> is false for \<open>None\<close> and for the
  empty list.
\<close>

fun load_loop ::
  "(string \<rightharpoonup> 'b) \<Rightarrow> ('b \<Rightarrow> error + tile) \<Rightarrow> string \<Rightarrow> string list \<Rightarrow> station list \<Rightarrow> nat
     \<Rightarrow> msg list \<times> station list \<times> nat"
where
  "load_loop fs decode directory [] all_data file_count = ([], all_data, file_count)"
| "load_loop fs decode directory (file # files) all_data file_count =
     (if ends_with file ''.pbf'' then
        (case read_pbf fs decode (path_join directory file) of
           (out, r) \<Rightarrow>
             (case load_loop fs decode directory files
                     (case r of None \<Rightarrow> all_data
                      | Some fts \<Rightarrow> if fts \<noteq> [] then all_data @ fts else all_data)
                     (file_count + 1) of
                (out', res) \<Rightarrow> (out @ out', res)))
      else load_loop fs decode directory files all_data file_count)"

text \<open>
  The result is the list of rows of the returned frame. An error of \<open>os.listdir\<close> is not
  caught and leaves the function.
\<close>

definition load_all_pbf_files ::
  "(string \<rightharpoonup> 'b) \<Rightarrow> ('b \<Rightarrow> error + tile) \<Rightarrow> (string \<Rightarrow> error + string list) \<Rightarrow> string
     \<Rightarrow> msg list \<times> (error + station list)"
where
  "load_all_pbf_files fs decode listdir directory =
     (case listdir directory of
        Inl e \<Rightarrow> ([], Inl e)
      | Inr files \<Rightarrow>
          (case load_loop fs decode directory files [] 0 of
             (out, all_data, file_count) \<Rightarrow>
               if all_data \<noteq> [] then (out @ [FileCount file_count], Inr all_data)
               else (out @ [FileCount file_count, WarnNoData], Inr [])))"

subsection \<open>\<open>create_map\<close>\<close>









subsection \<open>Partial sums for numerical bounds\<close>



subsection \<open>Notions of the specification\<close>

text \<open>The geometry types the script handles.\<close>

definition supported :: "geometry \<Rightarrow> bool" where
  "supported g = (gtype g = ''LineString'' \<or> gtype g = ''Polygon'' \<or> gtype g = ''Point'')"

text \<open>The features that yield a record: those with a station name and a handled geometry.\<close>

definition named_features :: "feature list \<Rightarrow> feature list" where
  "named_features fs = filter (\<lambda>f. props f name_key \<noteq> None \<and> supported (geometry f)) fs"

text \<open>The directory entries the script reads.\<close>

definition matching_files :: "string list \<Rightarrow> string list" where
  "matching_files files = filter (\<lambda>file. ends_with file ''.pbf'') files"

text \<open>What one file adds to the collection, and what reading it prints.\<close>

definition file_records ::
  "(string \<rightharpoonup> 'b) \<Rightarrow> ('b \<Rightarrow> error + tile) \<Rightarrow> string \<Rightarrow> string \<Rightarrow> station list" where
  "file_records fs decode directory file =
     (case snd (read_pbf fs decode (path_join directory file)) of None \<Rightarrow> [] | Some fts \<Rightarrow> fts)"

definition file_log ::
  "(string \<rightharpoonup> 'b) \<Rightarrow> ('b \<Rightarrow> error + tile) \<Rightarrow> string \<Rightarrow> string \<Rightarrow> msg list" where
  "file_log fs decode directory file = fst (read_pbf fs decode (path_join directory file))"

text \<open>The matching files whose \<open>read_pbf\<close> does not return \<open>None\<close>.\<close>

definition valid_files ::
  "(string \<rightharpoonup> 'b) \<Rightarrow> ('b \<Rightarrow> error + tile) \<Rightarrow> string \<Rightarrow> string list \<Rightarrow> string list" where
  "valid_files fs decode directory files =
     filter (\<lambda>file. snd (read_pbf fs decode (path_join directory file)) \<noteq> None)
       (matching_files files)"


subsection \<open>Example data\<close>

text \<open>
  A layer with four features: a named point, a point without a name, a named feature of a
  geometry type the script does not handle, and a named line without a passenger count.
\<close>

definition example_layer :: layer where
  "example_layer =
     \<lparr>extent = 4096,
      features =
        [\<lparr>properties = Some [''S12_001_ja'' \<mapsto> PStr ''Tokyo'', ''S12_009'' \<mapsto> PInt 100],
          geometry = \<lparr>gtype = ''Point'', coordinates = CList [CNum 0, CNum 0]\<rparr>\<rparr>,
         \<lparr>properties = Some [''S12_009'' \<mapsto> PInt 7],
          geometry = \<lparr>gtype = ''Point'', coordinates = CList [CNum 1, CNum 1]\<rparr>\<rparr>,
         \<lparr>properties = Some [''S12_001_ja'' \<mapsto> PStr ''Kanda''],
          geometry = \<lparr>gtype = ''MultiPolygon'', coordinates = CList []\<rparr>\<rparr>,
         \<lparr>properties = Some [''S12_001_ja'' \<mapsto> PStr ''Ueno''],
          geometry = \<lparr>gtype = ''LineString'',
                      coordinates = CList [CList [CNum 2048, CNum 2048], CList [CNum 9, CNum 9]]\<rparr>\<rparr>]\<rparr>"

definition other_layer :: layer where
  "other_layer =
     \<lparr>extent = 4096,
      features =
        [\<lparr>properties = Some [''S12_001_ja'' \<mapsto> PStr ''Osaka'', ''S12_009'' \<mapsto> PInt 5],
          geometry = \<lparr>gtype = ''Point'', coordinates = CList [CNum 3, CNum 3]\<rparr>\<rparr>]\<rparr>"

text \<open>
  A file system of five files and a decoder that turns the contents 0 into a tile of two
  layers, the contents 2 into the empty tile, and fails on everything else.
\<close>

definition example_fs :: "string \<rightharpoonup> nat" where
  "example_fs =
     [''d/a_1_2.pbf'' \<mapsto> 0, ''d/b_1_2.pbf'' \<mapsto> 1, ''d/c_1_2.pbf'' \<mapsto> 2,
      ''d/12_34.pbf'' \<mapsto> 0, ''d/tile.pbf'' \<mapsto> 0]"

definition example_decode :: "nat \<Rightarrow> error + tile" where
  "example_decode data =
     (if data = 0 then Inr [(''stations'', example_layer), (''other'', other_layer)]
      else if data = 2 then Inr []
      else Inl DecodeError)"

section \<open>Properties\<close>

subsection \<open>The coordinate transform\<close>


















subsection \<open>The tile address\<close>










subsection \<open>Reading one file\<close>

lemma first_coords_None_iff: "first_coords g = Inr None \<longleftrightarrow> \<not> supported g"
  by (auto simp: first_coords_def supported_def map_sum_def split: sum.splits)

lemma extract_loop_Inr:
  "extract_loop ext x y z fs acc = (out, Inr recs) \<Longrightarrow>
   \<exists>new. recs = acc @ new \<and>
     map (\<lambda>r. (name r, passengers r)) new =
       map (\<lambda>f. (the (props f name_key), passengers_of f)) (named_features fs)"
proof (induction fs arbitrary: acc out)
  case Nil
  then show ?case by (simp add: named_features_def)
next
  case (Cons f fs)
  show ?case
  proof (cases "props f name_key")
    case None
    with Cons show ?thesis by (simp add: named_features_def)
  next
    case (Some nm)
    show ?thesis
    proof (cases "first_coords (geometry f)")
      case (Inl e)
      with Cons.prems Some show ?thesis by simp
    next
      case (Inr c)
      show ?thesis
      proof (cases c)
        case None
        with Inr have ns: "\<not> supported (geometry f)" by (simp add: first_coords_None_iff)
        from Cons.prems Some Inr None obtain out' where
          "extract_loop ext x y z fs acc = (out', Inr recs)"
          by (auto split: prod.splits)
        from Cons.IH [OF this] ns show ?thesis by (simp add: named_features_def)
      next
        case (Some coords)
        with Inr have s: "supported (geometry f)"
          using first_coords_None_iff [of "geometry f"] by auto
        from Cons.prems \<open>props f name_key = Some nm\<close> Inr Some obtain lo la where
          ll: "feature_lonlat x y z ext coords = Inr (lo, la)"
          and rest: "extract_loop ext x y z fs
             (acc @ [\<lparr>name = nm, passengers = passengers_of f, lon = lo, lat = la\<rparr>]) = (out, Inr recs)"
          by (auto split: sum.splits)
        from Cons.IH [OF rest] s \<open>props f name_key = Some nm\<close> show ?thesis
          by (auto simp: named_features_def)
      qed
    qed
  qed
qed



lemma read_pbf_Some:
  assumes "snd (read_pbf fs decode file_path) = Some recs"
    and "fs file_path = Some data" and "decode data = Inr tile"
  shows "tile \<noteq> [] \<and>
         (\<exists>x y out. tile_address file_path = Inr (15, x, y) \<and>
            extract_loop (extent (snd (hd tile))) x y 15 (features (snd (hd tile))) [] = (out, Inr recs))"
  using assms
  by (auto simp: read_pbf_def read_pbf_body_def Let_def tile_address_def
      split: if_splits sum.splits prod.splits option.splits)

lemma extract_loop_log:
  "m \<in> set (fst (extract_loop ext x y z fs acc)) \<Longrightarrow> \<exists>g. m = WarnGeometry g"
proof (induction fs arbitrary: acc)
  case Nil
  then show ?case by simp
next
  case (Cons f fs)
  show ?case
  proof (cases "props f name_key")
    case None
    with Cons show ?thesis by simp
  next
    case (Some nm)
    show ?thesis
    proof (cases "first_coords (geometry f)")
      case (Inl e)
      with Cons.prems Some show ?thesis by simp
    next
      case (Inr c)
      show ?thesis
      proof (cases c)
        case None
        obtain out r where el: "extract_loop ext x y z fs acc = (out, r)"
          by (cases "extract_loop ext x y z fs acc")
        with Cons.prems \<open>props f name_key = Some nm\<close> Inr None
        have "m = WarnGeometry (gtype (geometry f)) \<or> m \<in> set out" by simp
        then show ?thesis using Cons.IH [of acc] el by auto
      next
        case (Some coords)
        show ?thesis
        proof (cases "feature_lonlat x y z ext coords")
          case (Inl e)
          with Cons.prems \<open>props f name_key = Some nm\<close> Inr Some show ?thesis by simp
        next
          case ll: (Inr p)
          obtain lo la where p: "p = (lo, la)" by (cases p)
          from Cons.prems \<open>props f name_key = Some nm\<close> Inr Some ll p
          have "m \<in> set (fst (extract_loop ext x y z fs
                  (acc @ [\<lparr>name = nm, passengers = passengers_of f, lon = lo, lat = la\<rparr>])))"
            by simp
          then show ?thesis by (rule Cons.IH)
        qed
      qed
    qed
  qed
qed

lemma read_pbf_body_log: "FileCount k \<notin> set (fst (read_pbf_body fs decode file_path))"
proof (cases "fs file_path")
  case None
  then show ?thesis by (simp add: read_pbf_body_def)
next
  case (Some data)
  show ?thesis
  proof (cases "decode data")
    case (Inl e)
    with Some show ?thesis by (simp add: read_pbf_body_def)
  next
    case (Inr tile)
    show ?thesis
    proof (cases "tile = []")
      case True
      with Some Inr show ?thesis by (simp add: read_pbf_body_def)
    next
      case False
      show ?thesis
      proof (cases "tile_address file_path")
        case (Inl e)
        with Some Inr False show ?thesis by (simp add: read_pbf_body_def)
      next
        case addr: (Inr a)
        obtain z x y where a: "a = (z, x, y)" by (cases a)
        obtain out r where
          el: "extract_loop (extent (snd (hd tile))) x y z (features (snd (hd tile))) [] = (out, r)"
          by (cases "extract_loop (extent (snd (hd tile))) x y z (features (snd (hd tile))) []")
        have "FileCount k \<notin> set out"
          using extract_loop_log [of "FileCount k" "extent (snd (hd tile))" x y z
              "features (snd (hd tile))" "[]"] el by auto
        then show ?thesis
          using Some Inr False addr a el by (cases r) (simp_all add: read_pbf_body_def)
      qed
    qed
  qed
qed

lemma read_pbf_log: "FileCount k \<notin> set (fst (read_pbf fs decode file_path))"
proof -
  obtain out r where b: "read_pbf_body fs decode file_path = (out, r)"
    by (cases "read_pbf_body fs decode file_path")
  then have "FileCount k \<notin> set out"
    using read_pbf_body_log [of k fs decode file_path] by simp
  then show ?thesis
    using b by (cases r) (simp_all add: read_pbf_def)
qed

text \<open>Evaluation on the example data.\<close>

lemmas run_simps =
  read_pbf_def read_pbf_body_def Let_def props_def passengers_of_def name_key_def
  passengers_key_def first_coords_def item_def truediv_def feature_lonlat_def
  tile_to_latlon_def example_fs_def example_decode_def example_layer_def other_layer_def

lemma addr_a: "tile_address ''d/a_1_2.pbf'' = Inr (15, 1, 2)"
  by code_simp


text \<open>
  Claim C3. When \<open>read_pbf\<close> returns records for a decoded tile, the names and passenger
  counts of the records are, in the order of the features of the first layer, those of the
  features that carry the key \<open>S12_001_ja\<close> (and a handled geometry): the name is the value
  of that key, the count is the value of \<open>S12_009\<close>, or 0 when that key is absent. No
  feature without the name key yields a record, and there are at most as many records as
  features.
\<close>

theorem read_pbf_keeps_named_features:
  assumes "snd (read_pbf fs decode file_path) = Some recs"
    and "fs file_path = Some data"
    and "decode data = Inr tile"
    and "fts = features (snd (hd tile))"
  shows "map (\<lambda>r. (name r, passengers r)) recs =
           map (\<lambda>f. (the (props f name_key),
                      case props f passengers_key of None \<Rightarrow> PInt 0 | Some v \<Rightarrow> v))
               (named_features fts)
         \<and> set (named_features fts) \<subseteq> {f. props f name_key \<noteq> None}
         \<and> length recs \<le> length fts"
proof -
  from read_pbf_Some [OF assms(1-3)] obtain x y out where
    "extract_loop (extent (snd (hd tile))) x y 15 fts [] = (out, Inr recs)"
    using assms(4) by blast
  from extract_loop_Inr [OF this]
  have m: "map (\<lambda>r. (name r, passengers r)) recs =
      map (\<lambda>f. (the (props f name_key), passengers_of f)) (named_features fts)"
    by simp
  have "length recs = length (map (\<lambda>r. (name r, passengers r)) recs)" by simp
  also have "\<dots> = length (named_features fts)" unfolding m by simp
  also have "\<dots> \<le> length fts" by (simp add: named_features_def)
  finally have "length recs \<le> length fts" .
  moreover have "set (named_features fts) \<subseteq> {f. props f name_key \<noteq> None}"
    by (auto simp: named_features_def)
  ultimately show ?thesis using m by (simp add: passengers_of_def)
qed

theorem read_pbf_keeps_named_features_witness:
  "\<exists>recs. snd (read_pbf example_fs example_decode ''d/a_1_2.pbf'') = Some recs
      \<and> map (\<lambda>r. (name r, passengers r)) recs = [(PStr ''Tokyo'', PInt 100), (PStr ''Ueno'', PInt 0)]
      \<and> length recs \<le> length (features example_layer)"
proof -
  obtain recs where r: "snd (read_pbf example_fs example_decode ''d/a_1_2.pbf'') = Some recs"
    by (simp add: run_simps addr_a)
  have "example_fs ''d/a_1_2.pbf'' = Some 0" by (simp add: example_fs_def)
  moreover have "example_decode 0 = Inr [(''stations'', example_layer), (''other'', other_layer)]"
    by (simp add: example_decode_def)
  moreover have "features example_layer =
      features (snd (hd [(''stations'', example_layer), (''other'', other_layer)]))" by simp
  ultimately have
    "map (\<lambda>r. (name r, passengers r)) recs =
           map (\<lambda>f. (the (props f name_key),
                      case props f passengers_key of None \<Rightarrow> PInt 0 | Some v \<Rightarrow> v))
               (named_features (features example_layer))
         \<and> set (named_features (features example_layer)) \<subseteq> {f. props f name_key \<noteq> None}
         \<and> length recs \<le> length (features example_layer)"
    using r by (rule read_pbf_keeps_named_features [rotated])
  then show ?thesis
    using r by (simp add: named_features_def supported_def props_def name_key_def
        passengers_key_def example_layer_def)
qed



text \<open>
  Claim C2. The coordinate taken from a geometry is the coordinate pair itself for a Point,
  the first pair for a LineString and the first pair of the first ring for a Polygon, and
  it is this coordinate that the record of a kept feature is computed from. A kept feature
  of any other geometry type only prints a warning: it adds no record, and the loop goes
  on with the remaining features as if the feature were not there.
\<close>

theorem first_coordinate_policy:
  "(gtype gp = ''Point'' \<longrightarrow> first_coords gp = Inr (Some (coordinates gp))) \<and>
   (gtype gl = ''LineString'' \<and> coordinates gl = CList (p # ps)
      \<longrightarrow> first_coords gl = Inr (Some p)) \<and>
   (gtype gq = ''Polygon'' \<and> coordinates gq = CList (CList (q # qs) # rings)
      \<longrightarrow> first_coords gq = Inr (Some q)) \<and>
   (props f name_key = Some nm \<and> first_coords (geometry f) = Inr (Some c)
      \<and> feature_lonlat x y z ext c = Inr (lo, la)
      \<longrightarrow> extract_loop ext x y z (f # fs) acc =
            extract_loop ext x y z fs
              (acc @ [\<lparr>name = nm, passengers = passengers_of f, lon = lo, lat = la\<rparr>])) \<and>
   (props u name_key \<noteq> None \<and> \<not> supported (geometry u)
      \<longrightarrow> extract_loop ext x y z (u # fs) acc =
            (WarnGeometry (gtype (geometry u)) # fst (extract_loop ext x y z fs acc),
             snd (extract_loop ext x y z fs acc)))"
proof -
  have "first_coords (geometry u) = Inr None" if "\<not> supported (geometry u)"
    using that by (simp add: first_coords_None_iff)
  then show ?thesis
    by (auto simp: first_coords_def item_def split: prod.splits)
qed

theorem first_coordinate_policy_witness:
  "first_coords \<lparr>gtype = ''Point'', coordinates = CList [CNum 7, CNum 8]\<rparr>
     = Inr (Some (CList [CNum 7, CNum 8]))
   \<and> first_coords \<lparr>gtype = ''LineString'',
         coordinates = CList [CList [CNum 1, CNum 2], CList [CNum 3, CNum 4]]\<rparr>
     = Inr (Some (CList [CNum 1, CNum 2]))
   \<and> first_coords \<lparr>gtype = ''Polygon'',
         coordinates = CList [CList [CList [CNum 1, CNum 2], CList [CNum 3, CNum 4]],
                              CList [CList [CNum 5, CNum 6]]]\<rparr>
     = Inr (Some (CList [CNum 1, CNum 2]))
   \<and> extract_loop 4096 1 2 15
        [\<lparr>properties = Some [''S12_001_ja'' \<mapsto> PStr ''Tokyo''],
          geometry = \<lparr>gtype = ''Point'', coordinates = CList [CNum 0, CNum 0]\<rparr>\<rparr>] []
     = ([], Inr [\<lparr>name = PStr ''Tokyo'', passengers = PInt 0,
                  lon = fst (tile_to_latlon 1 2 15), lat = snd (tile_to_latlon 1 2 15)\<rparr>])
   \<and> extract_loop 4096 1 2 15
        [\<lparr>properties = Some [''S12_001_ja'' \<mapsto> PStr ''Kanda''],
          geometry = \<lparr>gtype = ''MultiPolygon'', coordinates = CList []\<rparr>\<rparr>] []
     = ([WarnGeometry ''MultiPolygon''], Inr [])"
  using first_coordinate_policy
    [of "\<lparr>gtype = ''Point'', coordinates = CList [CNum 7, CNum 8]\<rparr>"
        "\<lparr>gtype = ''LineString'',
          coordinates = CList [CList [CNum 1, CNum 2], CList [CNum 3, CNum 4]]\<rparr>"
        "CList [CNum 1, CNum 2]" "[CList [CNum 3, CNum 4]]"
        "\<lparr>gtype = ''Polygon'',
          coordinates = CList [CList [CList [CNum 1, CNum 2], CList [CNum 3, CNum 4]],
                               CList [CList [CNum 5, CNum 6]]]\<rparr>"
        "CList [CNum 1, CNum 2]" "[CList [CNum 3, CNum 4]]" "[CList [CList [CNum 5, CNum 6]]]"
        "\<lparr>properties = Some [''S12_001_ja'' \<mapsto> PStr ''Tokyo''],
          geometry = \<lparr>gtype = ''Point'', coordinates = CList [CNum 0, CNum 0]\<rparr>\<rparr>"
        "PStr ''Tokyo''" "CList [CNum 0, CNum 0]" 1 2 15 4096
        "fst (tile_to_latlon 1 2 15)" "snd (tile_to_latlon 1 2 15)" "[]" "[]"
        "\<lparr>properties = Some [''S12_001_ja'' \<mapsto> PStr ''Kanda''],
          geometry = \<lparr>gtype = ''MultiPolygon'', coordinates = CList []\<rparr>\<rparr>"]
  by (simp add: props_def name_key_def passengers_key_def passengers_of_def supported_def
      first_coords_def item_def feature_lonlat_def truediv_def)







subsection \<open>Reading a directory\<close>

lemma load_loop_eq:
  "load_loop fs decode directory files all_data file_count =
     (concat (map (file_log fs decode directory) (matching_files files)),
      all_data @ concat (map (file_records fs decode directory) (matching_files files)),
      file_count + length (matching_files files))"
proof (induction files arbitrary: all_data file_count)
  case Nil
  show ?case by (simp add: matching_files_def)
next
  case (Cons entry files)
  show ?case
  proof (cases "ends_with entry ''.pbf''")
    case False
    then show ?thesis using Cons.IH by (simp add: matching_files_def)
  next
    case True
    obtain out r where rp: "read_pbf fs decode (path_join directory entry) = (out, r)"
      by (cases "read_pbf fs decode (path_join directory entry)")
    have rec: "(case r of None \<Rightarrow> all_data
                | Some fts \<Rightarrow> if fts \<noteq> [] then all_data @ fts else all_data)
               = all_data @ file_records fs decode directory entry"
      using rp by (simp add: file_records_def split: option.splits)
    show ?thesis
      using True rp
      by (simp add: Cons.IH rec matching_files_def file_log_def del: append_assoc)
  qed
qed

text \<open>
  Claim C7. If no entry of the directory ends with \<open>.pbf\<close>, or \<open>read_pbf\<close> returns
  \<open>None\<close> for every entry that does, \<open>load_all_pbf_files\<close> returns the empty
  collection and raises nothing.
\<close>

theorem load_all_pbf_files_nothing_decoded:
  assumes "listdir directory = Inr files"
    and "\<forall>file \<in> set files. ends_with file ''.pbf'' \<longrightarrow>
           snd (read_pbf fs decode (path_join directory file)) = None"
  shows "snd (load_all_pbf_files fs decode listdir directory) = Inr []"
proof -
  have "file_records fs decode directory entry = []"
    if "entry \<in> set (matching_files files)" for entry
    using that assms(2) by (simp add: matching_files_def file_records_def)
  then have "concat (map (file_records fs decode directory) (matching_files files)) = []"
    by simp
  then show ?thesis
    using assms(1) by (simp add: load_all_pbf_files_def load_loop_eq)
qed

theorem load_all_pbf_files_nothing_decoded_witness:
  "snd (load_all_pbf_files example_fs example_decode (\<lambda>d. Inr [''notes.txt'', ''b_1_2.pbf'']) ''d'')
     = Inr []
   \<and> snd (load_all_pbf_files example_fs example_decode (\<lambda>d. Inr [''notes.txt'', ''a_1_2.json'']) ''d'')
     = Inr []"
proof -
  have "snd (read_pbf example_fs example_decode ''d/b_1_2.pbf'') = None"
    by (simp add: read_pbf_def read_pbf_body_def example_fs_def example_decode_def)
  then have "snd (load_all_pbf_files example_fs example_decode
                    (\<lambda>d. Inr [''notes.txt'', ''b_1_2.pbf'']) ''d'') = Inr []"
    by (intro load_all_pbf_files_nothing_decoded [where files = "[''notes.txt'', ''b_1_2.pbf'']"])
       (simp_all add: ends_with_def path_join_def)
  moreover have "snd (load_all_pbf_files example_fs example_decode
                    (\<lambda>d. Inr [''notes.txt'', ''a_1_2.json'']) ''d'') = Inr []"
    by (intro load_all_pbf_files_nothing_decoded [where files = "[''notes.txt'', ''a_1_2.json'']"])
       (simp_all add: ends_with_def)
  ultimately show ?thesis by simp
qed

lemma load_all_pbf_files_eq:
  assumes "listdir directory = Inr files"
  shows "load_all_pbf_files fs decode listdir directory =
     (concat (map (file_log fs decode directory) (matching_files files))
        @ FileCount (length (matching_files files))
        # (if concat (map (file_records fs decode directory) (matching_files files)) = []
           then [WarnNoData] else []),
      Inr (concat (map (file_records fs decode directory) (matching_files files))))"
  using assms by (simp add: load_all_pbf_files_def load_loop_eq)

lemma file_count_reported:
  assumes "listdir directory = Inr files"
  shows "FileCount k \<in> set (fst (load_all_pbf_files fs decode listdir directory))
           \<longleftrightarrow> k = length (matching_files files)"
proof -
  have "FileCount k \<notin> set (concat (map (file_log fs decode directory) (matching_files files)))"
    by (auto simp: file_log_def read_pbf_log)
  moreover note load_all_pbf_files_eq
    [where listdir = listdir and directory = directory and files = files
       and fs = fs and decode = decode]
  ultimately show ?thesis using assms by auto
qed

lemma example_read_a:
  "\<exists>r1 r2. read_pbf example_fs example_decode ''d/a_1_2.pbf'' =
     ([WarnGeometry ''MultiPolygon'', Extracted ''d/a_1_2.pbf'' 2], Some [r1, r2])
     \<and> name r1 = PStr ''Tokyo'' \<and> name r2 = PStr ''Ueno''"
  by (simp add: run_simps addr_a)

lemma example_read_b:
  "read_pbf example_fs example_decode ''d/b_1_2.pbf'' = ([Failed ''d/b_1_2.pbf'' DecodeError], None)"
  by (simp add: read_pbf_def read_pbf_body_def example_fs_def example_decode_def)

lemma example_matching:
  "matching_files [''a_1_2.pbf'', ''notes.txt'', ''b_1_2.pbf''] = [''a_1_2.pbf'', ''b_1_2.pbf'']"
  by (simp add: matching_files_def ends_with_def)

lemma example_joins:
  "path_join ''d'' ''a_1_2.pbf'' = ''d/a_1_2.pbf''" "path_join ''d'' ''b_1_2.pbf'' = ''d/b_1_2.pbf''"
  by (simp_all add: path_join_def)

text \<open>
  Claim C5, amended. \<open>load_all_pbf_files\<close> returns the concatenation, in the order of the
  directory listing, of the records of the entries that end with \<open>.pbf\<close>, an entry
  whose \<open>read_pbf\<close> returns \<open>None\<close> adding nothing; the number of records is the sum
  over these entries. The file count that is printed is the number of all entries that end
  with \<open>.pbf\<close>, read with success or not; it is the number of valid files when every
  such entry is valid.
\<close>

theorem load_all_pbf_files_concat:
  assumes "listdir directory = Inr files"
  shows "snd (load_all_pbf_files fs decode listdir directory) =
           Inr (concat (map (file_records fs decode directory) (matching_files files)))
         \<and> (\<exists>recs. snd (load_all_pbf_files fs decode listdir directory) = Inr recs \<and>
               length recs = sum_list (map (\<lambda>file. length (file_records fs decode directory file))
                                        (matching_files files)))
         \<and> (\<forall>k. FileCount k \<in> set (fst (load_all_pbf_files fs decode listdir directory))
                  \<longleftrightarrow> k = length (matching_files files))
         \<and> (valid_files fs decode directory files = matching_files files
               \<longrightarrow> FileCount (length (valid_files fs decode directory files))
                     \<in> set (fst (load_all_pbf_files fs decode listdir directory)))"
proof -
  have s: "snd (load_all_pbf_files fs decode listdir directory) =
      Inr (concat (map (file_records fs decode directory) (matching_files files)))"
    using assms
      load_all_pbf_files_eq
        [where listdir = listdir and directory = directory and files = files
           and fs = fs and decode = decode]
    by simp
  have l: "length (concat (map (file_records fs decode directory) (matching_files files))) =
      sum_list (map (\<lambda>file. length (file_records fs decode directory file)) (matching_files files))"
    by (simp add: length_concat comp_def)
  show ?thesis
    using s l assms
      file_count_reported
        [where listdir = listdir and directory = directory and files = files
           and fs = fs and decode = decode]
    by simp
qed

theorem load_all_pbf_files_concat_witness:
  "\<exists>recs. snd (load_all_pbf_files example_fs example_decode
              (\<lambda>d. Inr [''a_1_2.pbf'', ''notes.txt'', ''b_1_2.pbf'']) ''d'') = Inr recs
      \<and> map name recs = [PStr ''Tokyo'', PStr ''Ueno'']
      \<and> FileCount 2 \<in> set (fst (load_all_pbf_files example_fs example_decode
              (\<lambda>d. Inr [''a_1_2.pbf'', ''notes.txt'', ''b_1_2.pbf'']) ''d''))
      \<and> FileCount 1 \<in> set (fst (load_all_pbf_files example_fs example_decode
              (\<lambda>d. Inr [''a_1_2.pbf'']) ''d''))
      \<and> valid_files example_fs example_decode ''d'' [''a_1_2.pbf''] = [''a_1_2.pbf'']"
proof -
  obtain r1 r2 where a: "read_pbf example_fs example_decode ''d/a_1_2.pbf'' =
     ([WarnGeometry ''MultiPolygon'', Extracted ''d/a_1_2.pbf'' 2], Some [r1, r2])"
    and n: "name r1 = PStr ''Tokyo''" "name r2 = PStr ''Ueno''"
    using example_read_a by blast
  have v: "valid_files example_fs example_decode ''d'' [''a_1_2.pbf''] = [''a_1_2.pbf'']"
    "matching_files [''a_1_2.pbf''] = [''a_1_2.pbf'']"
    using a by (simp_all add: valid_files_def matching_files_def ends_with_def example_joins)
  from load_all_pbf_files_concat
    [where listdir = "\<lambda>d. Inr [''a_1_2.pbf'', ''notes.txt'', ''b_1_2.pbf'']"
       and directory = "''d''" and files = "[''a_1_2.pbf'', ''notes.txt'', ''b_1_2.pbf'']"
       and fs = example_fs and decode = example_decode]
  have 1: "snd (load_all_pbf_files example_fs example_decode
              (\<lambda>d. Inr [''a_1_2.pbf'', ''notes.txt'', ''b_1_2.pbf'']) ''d'') = Inr [r1, r2]"
    and 2: "FileCount 2 \<in> set (fst (load_all_pbf_files example_fs example_decode
              (\<lambda>d. Inr [''a_1_2.pbf'', ''notes.txt'', ''b_1_2.pbf'']) ''d''))"
    by (simp_all add: example_matching file_records_def example_joins a example_read_b)
  from load_all_pbf_files_concat
    [where listdir = "\<lambda>d. Inr [''a_1_2.pbf'']" and directory = "''d''"
       and files = "[''a_1_2.pbf'']" and fs = example_fs and decode = example_decode]
  have 3: "FileCount 1 \<in> set (fst (load_all_pbf_files example_fs example_decode
              (\<lambda>d. Inr [''a_1_2.pbf'']) ''d''))"
    using v by simp
  show ?thesis using 1 2 3 v(1) n by simp
qed

text \<open>
  The claim as stated fails: of three entries, two end with \<open>.pbf\<close> and one of these
  cannot be decoded; the count printed is 2, the number of valid files is 1.
\<close>

theorem load_all_pbf_files_counts_failed_files:
  "FileCount 2 \<in> set (fst (load_all_pbf_files example_fs example_decode
       (\<lambda>d. Inr [''a_1_2.pbf'', ''notes.txt'', ''b_1_2.pbf'']) ''d''))
   \<and> FileCount 1 \<notin> set (fst (load_all_pbf_files example_fs example_decode
       (\<lambda>d. Inr [''a_1_2.pbf'', ''notes.txt'', ''b_1_2.pbf'']) ''d''))
   \<and> valid_files example_fs example_decode ''d'' [''a_1_2.pbf'', ''notes.txt'', ''b_1_2.pbf'']
       = [''a_1_2.pbf'']"
proof -
  have "snd (read_pbf example_fs example_decode ''d/a_1_2.pbf'') \<noteq> None"
    using example_read_a by auto
  then have "valid_files example_fs example_decode ''d'' [''a_1_2.pbf'', ''notes.txt'', ''b_1_2.pbf'']
       = [''a_1_2.pbf'']"
    by (simp add: valid_files_def example_matching example_joins example_read_b)
  then show ?thesis
    by (simp add: example_matching
        file_count_reported
          [where listdir = "\<lambda>d. Inr [''a_1_2.pbf'', ''notes.txt'', ''b_1_2.pbf'']"
             and files = "[''a_1_2.pbf'', ''notes.txt'', ''b_1_2.pbf'']"])
qed

subsection \<open>Marker sizes\<close>










end
